theory Spec2Isabelle
  imports Complex_Main "HOL-Library.AList"
begin

section \<open>Self-healing locator framework: fingerprints, matcher, store, orchestrator\<close>

text \<open>
  A shallow embedding of the TypeScript sources
  \<^verbatim>\<open>types.ts\<close>, \<^verbatim>\<open>element-fingerprint.ts\<close>, \<^verbatim>\<open>element-matcher.ts\<close>,
  \<^verbatim>\<open>locator-store.ts\<close> and \<^verbatim>\<open>index.ts\<close>.

  Conventions of the model:
  \<^item> a JavaScript number that the sources compute with (weights, confidences, scores,
    geometry) is the real number that the IEEE 754 double denotes; every arithmetic
    operation of the sources is the exact operation followed by \<open>roundDouble\<close>, rounding
    to the nearest double, ties to even, with gradual underflow. Overflow to infinity and
    NaN are not values of the model. Lengths, counters and priorities are integers below
    \<open>2 ^ 53\<close>, where doubles are exact: they are \<^typ>\<open>nat\<close> and \<^typ>\<open>int\<close>;
  \<^item> a decimal literal of the sources is the double nearest to it: \<^verbatim>\<open>0.2\<close> is
    \<open>roundDouble 0.2\<close>;
  \<^item> the edit distance and the string similarity are defined over lists of any type of
    code unit; the other strings are \<^typ>\<open>string\<close>, the list of the code units below 256,
    with \<^verbatim>\<open>length\<close> and \<^verbatim>\<open>===\<close> being \<^term>\<open>length\<close> and equality of lists;
  \<^item> an optional field (\<^verbatim>\<open>undefined\<close> or \<^verbatim>\<open>null\<close>) is an \<^typ>\<open>'a option\<close>;
  \<^item> the live documents are parameters: functions from selector strings to the list of
    matching elements, \<^term>\<open>None\<close> when \<^verbatim>\<open>querySelectorAll\<close> throws. The orchestrator
    queries the document that \<^verbatim>\<open>cy.document()\<close> yields, the matcher queries the global
    \<^verbatim>\<open>document\<close>: they are two parameters;
  \<^item> fingerprint objects and event arrays live in a heap, and the store holds references
    to them, because \<^verbatim>\<open>recordHealingEvent\<close> mutates the object that
    \<^verbatim>\<open>getFingerprint\<close> returned and \<^verbatim>\<open>import\<close> keeps the array it is given.
\<close>

subsection \<open>IEEE 754 double arithmetic\<close>

text \<open>The nearest integer, ties to the even one.\<close>

definition roundEven :: "real \<Rightarrow> int" where
  "roundEven y =
     (let f = \<lfloor>y\<rfloor>; r = y - of_int f
      in if r < 1 / 2 then f else if r > 1 / 2 then f + 1 else if even f then f else f + 1)"

text \<open>
  The exponent of the unit in the last place of the doubles around \<open>x\<close>: 53 significant
  bits, and no exponent below that of the subnormal numbers.
\<close>

definition ulpExponent :: "real \<Rightarrow> int" where
  "ulpExponent x = max (\<lfloor>log 2 \<bar>x\<bar>\<rfloor> - 52) (- 1074)"

definition roundDouble :: "real \<Rightarrow> real" where
  "roundDouble x =
     (if x = 0 then 0
      else of_int (roundEven (x / 2 powr of_int (ulpExponent x))) * 2 powr of_int (ulpExponent x))"

text \<open>
  The operations \<^verbatim>\<open>+\<close>, \<^verbatim>\<open>-\<close>, \<^verbatim>\<open>*\<close>, \<^verbatim>\<open>/\<close>, \<^verbatim>\<open>Math.sqrt\<close> and
  \<^verbatim>\<open>Math.pow(x, 2)\<close> on doubles. No division of the sources has a zero divisor.
\<close>

definition fadd :: "real \<Rightarrow> real \<Rightarrow> real" where
  "fadd x y = roundDouble (x + y)"

definition fsub :: "real \<Rightarrow> real \<Rightarrow> real" where
  "fsub x y = roundDouble (x - y)"

definition fmul :: "real \<Rightarrow> real \<Rightarrow> real" where
  "fmul x y = roundDouble (x * y)"

definition fdiv :: "real \<Rightarrow> real \<Rightarrow> real" where
  "fdiv x y = roundDouble (x / y)"

definition fsqrt :: "real \<Rightarrow> real" where
  "fsqrt x = roundDouble (sqrt x)"

definition fsquare :: "real \<Rightarrow> real" where
  "fsquare x = roundDouble (x * x)"

subsection \<open>JavaScript primitives used by the sources\<close>

text \<open>Truthiness of an optional string: defined and not empty.\<close>

definition truthy :: "string option \<Rightarrow> bool" where
  "truthy v = (case v of None \<Rightarrow> False | Some s \<Rightarrow> s \<noteq> [])"

text \<open>\<^verbatim>\<open>s || undefined\<close> on a string.\<close>

definition orUndefined :: "string \<Rightarrow> string option" where
  "orUndefined s = (if s = [] then None else Some s)"

text \<open>\<^verbatim>\<open>v || undefined\<close> and \<^verbatim>\<open>v || ''\<close> on a string that may be null.\<close>

definition optOrUndefined :: "string option \<Rightarrow> string option" where
  "optOrUndefined v = (case v of None \<Rightarrow> None | Some s \<Rightarrow> orUndefined s)"

definition orEmpty :: "string option \<Rightarrow> string" where
  "orEmpty v = (case v of None \<Rightarrow> [] | Some s \<Rightarrow> s)"

text \<open>
  \<^verbatim>\<open>String.prototype.trim\<close>: the white space and line terminator code units below 256
  are tab, line feed, vertical tab, form feed, carriage return, space and no-break space.
\<close>

definition isWhiteSpace :: "char \<Rightarrow> bool" where
  "isWhiteSpace c = ((of_char c :: nat) \<in> {9, 10, 11, 12, 13, 32, 160})"

definition trim :: "string \<Rightarrow> string" where
  "trim s = rev (dropWhile isWhiteSpace (rev (dropWhile isWhiteSpace s)))"

text \<open>
  \<^verbatim>\<open>toLowerCase\<close> on the code units below 256. No statement below depends on which
  letters it maps.
\<close>

definition lowerChar :: "char \<Rightarrow> char" where
  "lowerChar c =
     (let n = (of_char c :: nat)
      in if (65 \<le> n \<and> n \<le> 90) \<or> (192 \<le> n \<and> n \<le> 222 \<and> n \<noteq> 215)
         then char_of (n + 32) else c)"

definition toLowerCase :: "string \<Rightarrow> string" where
  "toLowerCase s = map lowerChar s"

text \<open>\<^verbatim>\<open>s.split(sep)\<close> for a one-character separator: never the empty array.\<close>

fun split :: "char \<Rightarrow> string \<Rightarrow> string list" where
  "split sep [] = [[]]"
| "split sep (c # cs) =
     (if c = sep then [] # split sep cs
      else (case split sep cs of [] \<Rightarrow> [[c]] | t # ts \<Rightarrow> (c # t) # ts))"

text \<open>\<^verbatim>\<open>parts.join(sep)\<close>.\<close>

fun join :: "string \<Rightarrow> string list \<Rightarrow> string" where
  "join sep [] = []"
| "join sep [p] = p"
| "join sep (p # q # ps) = p @ sep @ join sep (q # ps)"

subsection \<open>Data model (types.ts)\<close>

datatype LocatorType =
  T_id | T_data_testid | T_data_cy | T_aria_label | T_text | T_css | T_xpath
  | T_class | T_name | T_placeholder | T_title | T_role

record LocatorStrategy =
  l_type :: LocatorType
  l_value :: string
  l_priority :: int
  l_confidence :: real

record ElementPosition =
  p_x :: real
  p_y :: real
  p_width :: real
  p_height :: real

record ParentInfo =
  pi_tagName :: string
  pi_className :: "string option"
  pi_id :: "string option"

record ElementAttributes =
  a_tagName :: "string option"
  a_text :: "string option"
  a_innerText :: "string option"
  a_className :: "string option"
  a_id :: "string option"
  a_name :: "string option"
  a_placeholder :: "string option"
  a_title :: "string option"
  a_ariaLabel :: "string option"
  a_role :: "string option"
  a_type :: "string option"
  a_href :: "string option"
  a_src :: "string option"
  a_value :: "string option"
  a_dataAttributes :: "(string \<times> string) list option"
  a_position :: "ElementPosition option"
  a_parentInfo :: "ParentInfo option"

type_synonym Date = nat

record ElementFingerprint =
  fp_name :: string
  fp_primaryLocator :: string
  fp_alternativeLocators :: "LocatorStrategy list"
  fp_attributes :: ElementAttributes
  fp_lastSeen :: "Date option"
  fp_healCount :: nat

text \<open>
  \<^verbatim>\<open>MatchResult.matchedBy\<close> is a locator type or the literal \<^verbatim>\<open>'similarity'\<close>; the
  orchestrator copies it into \<^verbatim>\<open>HealingEvent.strategy\<close> unchanged.
\<close>

datatype MatchedBy = ByLocator LocatorType | Similarity

record HealingEvent =
  ev_timestamp :: Date
  ev_elementName :: string
  ev_originalLocator :: string
  ev_healedLocator :: string
  ev_strategy :: MatchedBy
  ev_confidence :: real
  ev_testFile :: string
  ev_testName :: string

record SelfHealingConfig =
  cfg_enabled :: bool
  cfg_confidenceThreshold :: real
  cfg_maxAlternatives :: nat
  cfg_reportPath :: string
  cfg_autoUpdateLocators :: bool

subsection \<open>The live document\<close>

text \<open>
  What the sources read from an \<^verbatim>\<open>HTMLElement\<close>: \<^verbatim>\<open>tagName\<close>, \<^verbatim>\<open>textContent\<close>,
  \<^verbatim>\<open>innerText\<close>, \<^verbatim>\<open>className\<close>, \<^verbatim>\<open>id\<close>, the attribute list (\<^verbatim>\<open>attributes\<close>,
  \<^verbatim>\<open>getAttribute\<close>), \<^verbatim>\<open>value\<close>, \<^verbatim>\<open>getBoundingClientRect()\<close> and, of
  \<^verbatim>\<open>parentElement\<close>, the tag name, class and id.
\<close>

record ParentElement =
  pe_tagName :: string
  pe_className :: string
  pe_id :: string

record HTMLElement =
  el_tagName :: string
  el_textContent :: "string option"
  el_innerText :: "string option"
  el_className :: string
  el_id :: string
  el_attributes :: "(string \<times> string) list"
  el_value :: "string option"
  el_rect :: ElementPosition
  el_parentElement :: "ParentElement option"

definition getAttribute :: "HTMLElement \<Rightarrow> string \<Rightarrow> string option" where
  "getAttribute element key = map_of (el_attributes element) key"

text \<open>\<^verbatim>\<open>querySelectorAll\<close>: the matching elements, or \<^term>\<open>None\<close> when it throws.\<close>

type_synonym Document = "string \<Rightarrow> HTMLElement list option"

text \<open>
  The effects that the claims speak about, in the order they happen: a query of the
  document of \<^verbatim>\<open>cy.document()\<close>, a query of the global document, and one run of
  \<^verbatim>\<open>calculateSimilarityScore\<close>.
\<close>

datatype effect = PrimaryQuery string | DomQuery string | ScoreComputed HTMLElement

subsection \<open>String similarity (element-matcher.ts)\<close>

text \<open>
  \<^verbatim>\<open>levenshteinDistance(str1, str2)\<close> fills a matrix with one row per prefix of
  \<^verbatim>\<open>str2\<close> and one column per prefix of \<^verbatim>\<open>str1\<close>. \<open>fillRow\<close> is the inner loop over
  \<open>j\<close>: it is given the code unit \<^verbatim>\<open>str2.charAt(i - 1)\<close>, the rest of \<^verbatim>\<open>str1\<close>, the
  previous row from column \<open>j - 1\<close> on, and the entry to the left, \<^verbatim>\<open>matrix[i][j - 1]\<close>.
  \<open>fillMatrix\<close> is the outer loop over \<open>i\<close>, keeping the last row only.
\<close>

fun fillRow :: "'c \<Rightarrow> 'c list \<Rightarrow> nat list \<Rightarrow> nat \<Rightarrow> nat list" where
  "fillRow c (d # ds) (diag # up # prev) left =
     (let v = (if c = d then diag else min (diag + 1) (min (left + 1) (up + 1)))
      in v # fillRow c ds (up # prev) v)"
| "fillRow c _ _ _ = []"

fun fillMatrix :: "'c list \<Rightarrow> 'c list \<Rightarrow> nat list \<Rightarrow> nat \<Rightarrow> nat list" where
  "fillMatrix str1 [] prev i = prev"
| "fillMatrix str1 (c # cs) prev i =
     fillMatrix str1 cs (i # fillRow c str1 prev i) (Suc i)"

definition levenshteinDistance :: "'c list \<Rightarrow> 'c list \<Rightarrow> nat" where
  "levenshteinDistance str1 str2 =
     last (fillMatrix str1 str2 [0..<Suc (length str1)] 1)"

text \<open>
  \<^verbatim>\<open>longer.length - distance\<close> is a difference of integers, exact in doubles; the
  division rounds.
\<close>

definition stringSimilarity :: "'c list \<Rightarrow> 'c list \<Rightarrow> real" where
  "stringSimilarity str1 str2 =
     (if str1 = str2 then 1
      else if str1 = [] \<or> str2 = [] then 0
      else let longer = (if length str1 > length str2 then str1 else str2);
               shorter = (if length str1 > length str2 then str2 else str1)
           in if length longer = 0 then 1
              else let distance = levenshteinDistance longer shorter
                   in fdiv (real (length longer) - real distance) (real (length longer)))"

text \<open>
  The Levenshtein distance as the textbook defines it, by recursion on the lengths of the
  two prefixes compared: \<open>lev a b i j\<close> is the distance between the first \<open>i\<close> code units
  of \<open>a\<close> and the first \<open>j\<close> code units of \<open>b\<close>. This definition follows the words of the
  specification, not the source; the source's matrix is proved to compute it.
\<close>

fun lev :: "'c list \<Rightarrow> 'c list \<Rightarrow> nat \<Rightarrow> nat \<Rightarrow> nat" where
  "lev a b 0 j = j"
| "lev a b (Suc i) 0 = Suc i"
| "lev a b (Suc i) (Suc j) =
     (if a ! i = b ! j then lev a b i j
      else 1 + min (lev a b i j) (min (lev a b (Suc i) j) (lev a b i (Suc j))))"

definition levenshtein :: "'c list \<Rightarrow> 'c list \<Rightarrow> nat" where
  "levenshtein a b = lev a b (length a) (length b)"

subsection \<open>Similarity scoring (element-matcher.ts)\<close>

text \<open>The keys of the \<^verbatim>\<open>weights\<close> object of \<^verbatim>\<open>calculateSimilarityScore\<close>, in its order.\<close>

datatype Signal =
  S_text | S_ariaLabel | S_dataAttributes | S_placeholder | S_name | S_className
  | S_position | S_role

fun weights :: "Signal \<Rightarrow> real" where
  "weights S_text = roundDouble 0.25"
| "weights S_ariaLabel = roundDouble 0.2"
| "weights S_dataAttributes = roundDouble 0.15"
| "weights S_placeholder = roundDouble 0.1"
| "weights S_name = roundDouble 0.1"
| "weights S_className = roundDouble 0.05"
| "weights S_position = roundDouble 0.1"
| "weights S_role = roundDouble 0.05"

text \<open>The comparisons made inside the eight blocks of \<^verbatim>\<open>calculateSimilarityScore\<close>.\<close>

definition textSimilarity :: "HTMLElement \<Rightarrow> string \<Rightarrow> real" where
  "textSimilarity element targetText =
     (let elementText = orEmpty (map_option trim (el_textContent element))
      in stringSimilarity elementText targetText)"

definition attributeScore :: "HTMLElement \<Rightarrow> string \<Rightarrow> string \<Rightarrow> real" where
  "attributeScore element key targetValue =
     (let elementValue = orEmpty (getAttribute element key)
      in if elementValue = targetValue then 1 else 0)"

text \<open>
  The loop over \<^verbatim>\<open>Object.entries(target.dataAttributes)\<close>: the pair is
  (\<^verbatim>\<open>dataScore\<close>, \<^verbatim>\<open>dataCount\<close>), two integer counters.
\<close>

fun dataLoop :: "HTMLElement \<Rightarrow> (string \<times> string) list \<Rightarrow> nat \<times> nat \<Rightarrow> nat \<times> nat" where
  "dataLoop element [] acc = acc"
| "dataLoop element ((key, value) # rest) (dataScore, dataCount) =
     dataLoop element rest
       (if getAttribute element key = Some value then dataScore + 1 else dataScore,
        dataCount + 1)"

text \<open>
  A \<^verbatim>\<open>Set\<close> built from an array keeps one copy of each member: \<^term>\<open>remdups\<close> (the size
  and the membership are those of the set).
\<close>

definition classScore :: "HTMLElement \<Rightarrow> string \<Rightarrow> real" where
  "classScore element targetClassName =
     (let elementClasses = remdups (split (CHR '' '') (el_className element));
          targetClasses = remdups (split (CHR '' '') targetClassName);
          intersection = filter (\<lambda>c. c \<in> set elementClasses) targetClasses
      in fdiv (real (length intersection)) (real (length targetClasses)))"

text \<open>
  \<^verbatim>\<open>Math.pow(d, 2)\<close> is taken to be the rounded square, as \<^verbatim>\<open>d * d\<close> is; the
  statements below use only that it is not negative.
\<close>

definition calculatePositionSimilarity :: "ElementPosition \<Rightarrow> ElementPosition \<Rightarrow> real" where
  "calculatePositionSimilarity rect target =
     (let maxDistance = 200;
          distance = fsqrt (fadd (fsquare (fsub (p_x rect) (p_x target)))
                                 (fsquare (fsub (p_y rect) (p_y target))));
          sizeMatch =
            (if \<bar>fsub (p_width rect) (p_width target)\<bar> < 50
                \<and> \<bar>fsub (p_height rect) (p_height target)\<bar> < 50
             then roundDouble 0.5 else 0);
          positionMatch = fmul (max 0 (fsub 1 (fdiv distance maxDistance))) (roundDouble 0.5)
      in fadd positionMatch sizeMatch)"

text \<open>
  \<^verbatim>\<open>totalScore += score * weight; totalWeight += weight\<close> on the pair
  (\<^verbatim>\<open>totalScore\<close>, \<^verbatim>\<open>totalWeight\<close>).
\<close>

definition accumulate :: "real \<Rightarrow> real \<Rightarrow> real \<times> real \<Rightarrow> real \<times> real" where
  "accumulate score weight acc = (fadd (fst acc) (fmul score weight), fadd (snd acc) weight)"

text \<open>\<^verbatim>\<open>if (v) { ... }\<close> on an optional string \<open>v\<close>, the block reading \<open>v\<close>.\<close>

definition whenTruthy :: "string option \<Rightarrow> (string \<Rightarrow> 'a \<Rightarrow> 'a) \<Rightarrow> 'a \<Rightarrow> 'a" where
  "whenTruthy v block acc =
     (case v of None \<Rightarrow> acc | Some s \<Rightarrow> if s \<noteq> [] then block s acc else acc)"

definition calculateSimilarityScore :: "HTMLElement \<Rightarrow> ElementAttributes \<Rightarrow> real" where
  "calculateSimilarityScore element target =
     (let acc = (0, 0);
          acc = whenTruthy (a_text target)
                  (\<lambda>t. accumulate (textSimilarity element t) (weights S_text)) acc;
          acc = whenTruthy (a_ariaLabel target)
                  (\<lambda>t. accumulate (attributeScore element ''aria-label'' t) (weights S_ariaLabel)) acc;
          acc = (case a_dataAttributes target of
                   None \<Rightarrow> acc
                 | Some entries \<Rightarrow>
                     (let (dataScore, dataCount) = dataLoop element entries (0, 0)
                      in if dataCount > 0
                         then accumulate (fdiv (real dataScore) (real dataCount))
                                (weights S_dataAttributes) acc
                         else acc));
          acc = whenTruthy (a_placeholder target)
                  (\<lambda>t. accumulate (attributeScore element ''placeholder'' t) (weights S_placeholder)) acc;
          acc = whenTruthy (a_name target)
                  (\<lambda>t. accumulate (attributeScore element ''name'' t) (weights S_name)) acc;
          acc = whenTruthy (a_className target)
                  (\<lambda>t. accumulate (classScore element t) (weights S_className)) acc;
          acc = (case a_position target of
                   None \<Rightarrow> acc
                 | Some pos \<Rightarrow>
                     accumulate (calculatePositionSimilarity (el_rect element) pos)
                       (weights S_position) acc);
          acc = whenTruthy (a_role target)
                  (\<lambda>t. accumulate (attributeScore element ''role'' t) (weights S_role)) acc
      in if snd acc > 0 then fdiv (fst acc) (snd acc) else 0)"

text \<open>
  The specification's reading of the score, for comparison with the source: a signal is
  applicable when the target attributes hold it, each applicable signal has a comparison
  score, and the result is the weighted sum over the applicable signals divided by the sum
  of their weights, the two sums and the quotient being those of doubles, added in the
  order of the table.
\<close>

definition allSignals :: "Signal list" where
  "allSignals = [S_text, S_ariaLabel, S_dataAttributes, S_placeholder, S_name, S_className,
                 S_position, S_role]"

fun applicable :: "Signal \<Rightarrow> ElementAttributes \<Rightarrow> bool" where
  "applicable S_text target = truthy (a_text target)"
| "applicable S_ariaLabel target = truthy (a_ariaLabel target)"
| "applicable S_dataAttributes target =
     (case a_dataAttributes target of None \<Rightarrow> False | Some entries \<Rightarrow> entries \<noteq> [])"
| "applicable S_placeholder target = truthy (a_placeholder target)"
| "applicable S_name target = truthy (a_name target)"
| "applicable S_className target = truthy (a_className target)"
| "applicable S_position target = (a_position target \<noteq> None)"
| "applicable S_role target = truthy (a_role target)"

fun signalScore :: "Signal \<Rightarrow> HTMLElement \<Rightarrow> ElementAttributes \<Rightarrow> real" where
  "signalScore S_text element target = textSimilarity element (orEmpty (a_text target))"
| "signalScore S_ariaLabel element target =
     attributeScore element ''aria-label'' (orEmpty (a_ariaLabel target))"
| "signalScore S_dataAttributes element target =
     (case a_dataAttributes target of
        None \<Rightarrow> 0
      | Some entries \<Rightarrow>
          fdiv (real (length (filter (\<lambda>(key, value). getAttribute element key = Some value)
                                entries)))
               (real (length entries)))"
| "signalScore S_placeholder element target =
     attributeScore element ''placeholder'' (orEmpty (a_placeholder target))"
| "signalScore S_name element target =
     attributeScore element ''name'' (orEmpty (a_name target))"
| "signalScore S_className element target = classScore element (orEmpty (a_className target))"
| "signalScore S_position element target =
     (case a_position target of
        None \<Rightarrow> 0
      | Some pos \<Rightarrow> calculatePositionSimilarity (el_rect element) pos)"
| "signalScore S_role element target =
     attributeScore element ''role'' (orEmpty (a_role target))"

definition weightedSum :: "(Signal \<Rightarrow> real) \<Rightarrow> Signal list \<Rightarrow> real" where
  "weightedSum part signals = foldl (\<lambda>total s. fadd total (part s)) 0 signals"

definition weightedScore :: "HTMLElement \<Rightarrow> ElementAttributes \<Rightarrow> real" where
  "weightedScore element target =
     (let present = filter (\<lambda>s. applicable s target) allSignals
      in if present = [] then 0
         else fdiv (weightedSum (\<lambda>s. fmul (signalScore s element target) (weights s)) present)
                   (weightedSum weights present))"

subsection \<open>Fingerprint capture (element-fingerprint.ts)\<close>

text \<open>
  The loop of \<^verbatim>\<open>extractAttributes\<close> over \<^verbatim>\<open>element.attributes\<close>: an assignment to a
  property of an object replaces the value of a key already there and appends a new key.
\<close>

definition extractDataAttributes :: "(string \<times> string) list \<Rightarrow> (string \<times> string) list" where
  "extractDataAttributes attrs =
     foldl (\<lambda>dataAttributes (name, value).
              if take 5 name = ''data-'' then AList.update name value dataAttributes
              else dataAttributes) [] attrs"

definition extractAttributes :: "HTMLElement \<Rightarrow> ElementAttributes" where
  "extractAttributes element =
     (let rect = el_rect element;
          parent = el_parentElement element;
          dataAttributes = extractDataAttributes (el_attributes element);
          parentInfo =
            (case parent of
               None \<Rightarrow> None
             | Some p \<Rightarrow>
                 Some \<lparr>pi_tagName = toLowerCase (pe_tagName p),
                       pi_className = orUndefined (pe_className p),
                       pi_id = orUndefined (pe_id p)\<rparr>)
      in \<lparr>a_tagName = Some (toLowerCase (el_tagName element)),
          a_text = optOrUndefined (map_option (\<lambda>t. take 100 (trim t)) (el_textContent element)),
          a_innerText = optOrUndefined (map_option (\<lambda>t. take 100 (trim t)) (el_innerText element)),
          a_className = orUndefined (el_className element),
          a_id = orUndefined (el_id element),
          a_name = optOrUndefined (getAttribute element ''name''),
          a_placeholder = optOrUndefined (getAttribute element ''placeholder''),
          a_title = optOrUndefined (getAttribute element ''title''),
          a_ariaLabel = optOrUndefined (getAttribute element ''aria-label''),
          a_role = optOrUndefined (getAttribute element ''role''),
          a_type = optOrUndefined (getAttribute element ''type''),
          a_href = optOrUndefined (getAttribute element ''href''),
          a_src = optOrUndefined (getAttribute element ''src''),
          a_value = optOrUndefined (el_value element),
          a_dataAttributes = (if length dataAttributes > 0 then Some dataAttributes else None),
          a_position = Some \<lparr>p_x = p_x rect, p_y = p_y rect,
                              p_width = p_width rect, p_height = p_height rect\<rparr>,
          a_parentInfo = parentInfo\<rparr>)"

text \<open>The double quote and the backslash, and \<^verbatim>\<open>text.replace(/"/g, '\\"')\<close>.\<close>

definition dquote :: char where
  "dquote = CHR 0x22"

definition backslash :: char where
  "backslash = CHR 0x5C"

definition escapeQuotes :: "string \<Rightarrow> string" where
  "escapeQuotes text = concat (map (\<lambda>c. if c = dquote then [backslash, dquote] else [c]) text)"

text \<open>A selector of the shape \<^verbatim>\<open>[attr="value"]\<close>.\<close>

definition attrSelector :: "string \<Rightarrow> string \<Rightarrow> string" where
  "attrSelector attr v = ''['' @ attr @ ''='' @ [dquote] @ v @ [dquote] @ '']''"

definition generateTextLocator :: "string \<Rightarrow> string \<Rightarrow> string option" where
  "generateTextLocator tagName text =
     (let safeText = escapeQuotes text;
          contains = '':contains('' @ [dquote] @ safeText @ [dquote] @ '')''
      in if tagName = ''button'' then Some (''button'' @ contains)
         else if tagName = ''a'' then Some (''a'' @ contains)
         else if tagName = ''label'' then Some (''label'' @ contains)
         else Some (tagName @ contains))"

definition generateContextualCss :: "HTMLElement \<Rightarrow> ElementAttributes \<Rightarrow> string option" where
  "generateContextualCss element attributes =
     (let parts = [];
          parentId = (case a_parentInfo attributes of None \<Rightarrow> None | Some p \<Rightarrow> pi_id p);
          parentClassName =
            (case a_parentInfo attributes of None \<Rightarrow> None | Some p \<Rightarrow> pi_className p);
          parts =
            (if truthy parentId then parts @ [''#'' @ orEmpty parentId]
             else if truthy parentClassName then
               (let firstClass = hd (split (CHR '' '') (orEmpty parentClassName))
                in if firstClass \<noteq> [] then parts @ [''.'' @ firstClass] else parts)
             else parts);
          elementSelector = orEmpty (a_tagName attributes);
          elementSelector =
            whenTruthy (a_type attributes)
              (\<lambda>t sel. sel @ attrSelector ''type'' t) elementSelector;
          parts = (if elementSelector \<noteq> [] then parts @ [elementSelector] else parts)
      in if length parts > 0 then Some (join '' > '' parts) else None)"

text \<open>\<^verbatim>\<open>attributes.dataAttributes?.[key]\<close>.\<close>

definition dataAttribute :: "ElementAttributes \<Rightarrow> string \<Rightarrow> string option" where
  "dataAttribute attributes key =
     (case a_dataAttributes attributes of None \<Rightarrow> None | Some d \<Rightarrow> map_of d key)"

text \<open>
  \<^verbatim>\<open>locators.push(...)\<close> appends; \<^verbatim>\<open>locators.sort((a, b) => a.priority - b.priority)\<close>
  is a stable sort on the priority.
\<close>

definition generateAlternativeLocators ::
    "HTMLElement \<Rightarrow> ElementAttributes \<Rightarrow> LocatorStrategy list" where
  "generateAlternativeLocators element attributes =
     (let locators = [];
          locators =
            whenTruthy (dataAttribute attributes ''data-testid'')
              (\<lambda>v ls. ls @ [\<lparr>l_type = T_data_testid, l_value = attrSelector ''data-testid'' v,
                               l_priority = 1, l_confidence = roundDouble 0.95\<rparr>]) locators;
          locators =
            whenTruthy (dataAttribute attributes ''data-cy'')
              (\<lambda>v ls. ls @ [\<lparr>l_type = T_data_cy, l_value = attrSelector ''data-cy'' v,
                               l_priority = 2, l_confidence = roundDouble 0.95\<rparr>]) locators;
          locators =
            whenTruthy (a_id attributes)
              (\<lambda>v ls. ls @ [\<lparr>l_type = T_id, l_value = ''#'' @ v,
                               l_priority = 3, l_confidence = roundDouble 0.9\<rparr>]) locators;
          locators =
            whenTruthy (a_ariaLabel attributes)
              (\<lambda>v ls. ls @ [\<lparr>l_type = T_aria_label, l_value = attrSelector ''aria-label'' v,
                               l_priority = 4, l_confidence = roundDouble 0.85\<rparr>]) locators;
          locators =
            whenTruthy (a_name attributes)
              (\<lambda>v ls. ls @ [\<lparr>l_type = T_name, l_value = attrSelector ''name'' v,
                               l_priority = 5, l_confidence = roundDouble 0.8\<rparr>]) locators;
          locators =
            whenTruthy (a_placeholder attributes)
              (\<lambda>v ls. ls @ [\<lparr>l_type = T_placeholder, l_value = attrSelector ''placeholder'' v,
                               l_priority = 6, l_confidence = roundDouble 0.75\<rparr>]) locators;
          locators =
            (if truthy (a_role attributes) \<and> truthy (a_text attributes)
             then locators @ [\<lparr>l_type = T_role,
                                 l_value = attrSelector ''role'' (orEmpty (a_role attributes)),
                                 l_priority = 7, l_confidence = roundDouble 0.7\<rparr>]
             else locators);
          locators =
            (if truthy (a_text attributes) \<and> length (orEmpty (a_text attributes)) < 50
             then (case generateTextLocator (toLowerCase (el_tagName element))
                          (orEmpty (a_text attributes)) of
                     None \<Rightarrow> locators
                   | Some textLocator \<Rightarrow>
                       if textLocator \<noteq> []
                       then locators @ [\<lparr>l_type = T_text, l_value = textLocator,
                                           l_priority = 8, l_confidence = roundDouble 0.7\<rparr>]
                       else locators)
             else locators);
          locators =
            (if truthy (a_className attributes)
                \<and> CHR '' '' \<notin> set (orEmpty (a_className attributes))
             then locators @ [\<lparr>l_type = T_class,
                                 l_value = ''.'' @ orEmpty (a_className attributes),
                                 l_priority = 9, l_confidence = roundDouble 0.5\<rparr>]
             else locators);
          cssWithContext = generateContextualCss element attributes;
          locators =
            whenTruthy cssWithContext
              (\<lambda>v ls. ls @ [\<lparr>l_type = T_css, l_value = v,
                               l_priority = 10, l_confidence = roundDouble 0.6\<rparr>]) locators
      in sort_key l_priority locators)"

text \<open>
  \<^verbatim>\<open>new Date()\<close> is the argument \<open>now\<close>. The confidence literals above are the
  doubles nearest to them.
\<close>

definition captureElementFingerprint ::
    "HTMLElement \<Rightarrow> string \<Rightarrow> string \<Rightarrow> Date \<Rightarrow> ElementFingerprint" where
  "captureElementFingerprint element name primaryLocator now =
     (let attributes = extractAttributes element;
          alternativeLocators = generateAlternativeLocators element attributes
      in \<lparr>fp_name = name,
          fp_primaryLocator = primaryLocator,
          fp_alternativeLocators = alternativeLocators,
          fp_attributes = attributes,
          fp_lastSeen = Some now,
          fp_healCount = 0\<rparr>)"

subsection \<open>Element matcher (element-matcher.ts)\<close>

text \<open>
  What the sources throw. The three errors of the orchestrator are \<^verbatim>\<open>Error\<close> objects
  told apart by their message; \<open>LowConfidenceHeal\<close> carries the element name, the best
  confidence and the threshold, which its message prints as percentages.
  \<open>SelectorSyntaxError\<close> is the exception of \<^verbatim>\<open>querySelectorAll\<close> where no
  \<^verbatim>\<open>try\<close> block encloses the call.
\<close>

datatype error =
  NotFoundNoHealing string
  | NoFingerprintAvailable string
  | LowConfidenceHeal string real real
  | SelectorSyntaxError string

record MatchResult =
  m_element :: "HTMLElement option"
  m_locator :: "LocatorStrategy option"
  m_confidence :: real
  m_matchedBy :: MatchedBy

text \<open>The loop of \<^verbatim>\<open>findBestMatch\<close> on the pair (\<^verbatim>\<open>bestElement\<close>, \<^verbatim>\<open>bestScore\<close>).\<close>

fun bestMatchLoop ::
    "ElementAttributes \<Rightarrow> HTMLElement list \<Rightarrow> HTMLElement option \<times> real
      \<Rightarrow> HTMLElement option \<times> real" where
  "bestMatchLoop targetAttributes [] best = best"
| "bestMatchLoop targetAttributes (element # elements) (bestElement, bestScore) =
     (let score = calculateSimilarityScore element targetAttributes
      in bestMatchLoop targetAttributes elements
           (if score > bestScore then (Some element, score) else (bestElement, bestScore)))"

definition findBestMatch ::
    "HTMLElement list \<Rightarrow> ElementAttributes \<Rightarrow> HTMLElement option \<times> real" where
  "findBestMatch elements targetAttributes = bestMatchLoop targetAttributes elements (None, 0)"

text \<open>\<^verbatim>\<open>findBestMatch\<close> scores every element once, in order.\<close>

definition findBestMatch_effects :: "HTMLElement list \<Rightarrow> effect list" where
  "findBestMatch_effects elements = map ScoreComputed elements"

definition findBySimilarity ::
    "Document \<Rightarrow> ElementAttributes \<Rightarrow> (error + MatchResult) \<times> effect list" where
  "findBySimilarity document targetAttributes =
     (if \<not> truthy (a_tagName targetAttributes)
      then (Inr \<lparr>m_element = None, m_locator = None, m_confidence = 0,
                 m_matchedBy = Similarity\<rparr>, [])
      else (let tagName = orEmpty (a_tagName targetAttributes)
            in case document tagName of
                 None \<Rightarrow> (Inl (SelectorSyntaxError tagName), [DomQuery tagName])
               | Some candidates \<Rightarrow>
                   (let (element, confidence) = findBestMatch candidates targetAttributes
                    in (Inr \<lparr>m_element = element, m_locator = None,
                              m_confidence = confidence, m_matchedBy = Similarity\<rparr>,
                        DomQuery tagName # findBestMatch_effects candidates))))"

text \<open>
  The \<^verbatim>\<open>for\<close> loop of \<^verbatim>\<open>ElementMatcher.findElement\<close> over the alternative locators:
  \<^term>\<open>Some\<close> result when an iteration returns, \<^term>\<open>None\<close> when the loop runs out.
\<close>

fun tryLocators ::
    "real \<Rightarrow> Document \<Rightarrow> ElementAttributes \<Rightarrow> LocatorStrategy list
      \<Rightarrow> MatchResult option \<times> effect list" where
  "tryLocators confidenceThreshold document attributes [] = (None, [])"
| "tryLocators confidenceThreshold document attributes (locator # rest) =
     (case document (l_value locator) of
        None \<Rightarrow>
          (let (r, effects) = tryLocators confidenceThreshold document attributes rest
           in (r, DomQuery (l_value locator) # effects))
      | Some elements \<Rightarrow>
          if length elements = 1
          then (Some \<lparr>m_element = Some (hd elements), m_locator = Some locator,
                       m_confidence = l_confidence locator,
                       m_matchedBy = ByLocator (l_type locator)\<rparr>,
                [DomQuery (l_value locator)])
          else if length elements > 1
          then (let (bestElement, bestConfidence) = findBestMatch elements attributes;
                    scored = DomQuery (l_value locator) # findBestMatch_effects elements
                in if bestConfidence \<ge> confidenceThreshold
                   then (Some \<lparr>m_element = bestElement, m_locator = Some locator,
                                m_confidence = bestConfidence,
                                m_matchedBy = ByLocator (l_type locator)\<rparr>, scored)
                   else (let (r, effects) =
                               tryLocators confidenceThreshold document attributes rest
                         in (r, scored @ effects)))
          else (let (r, effects) = tryLocators confidenceThreshold document attributes rest
                in (r, DomQuery (l_value locator) # effects)))"

definition ElementMatcher_findElement ::
    "real \<Rightarrow> Document \<Rightarrow> ElementFingerprint \<Rightarrow> (error + MatchResult) \<times> effect list" where
  "ElementMatcher_findElement confidenceThreshold document fingerprint =
     (case tryLocators confidenceThreshold document (fp_attributes fingerprint)
             (fp_alternativeLocators fingerprint) of
        (Some result, effects) \<Rightarrow> (Inr result, effects)
      | (None, effects) \<Rightarrow>
          (let (result, more) = findBySimilarity document (fp_attributes fingerprint)
           in (result, effects @ more)))"

subsection \<open>Locator store (locator-store.ts)\<close>

text \<open>
  Fingerprint objects and arrays of events are allocated in a heap, and a reference is an
  index into it. The \<^verbatim>\<open>Map\<close> of the store is private and never handed out, so it is held
  by value, with references as its values: \<^verbatim>\<open>Map.set\<close> keeps the position of a key
  already there and appends a new key, which is \<^term>\<open>AList.update\<close>. The field
  \<^verbatim>\<open>healingEvents\<close> is a reference to an array.
\<close>

type_synonym ref = nat

record Heap =
  objects :: "ElementFingerprint list"
  arrays :: "HealingEvent list list"

record LocatorStore =
  fingerprints :: "(string \<times> ref) list"
  healingEvents :: ref

text \<open>An object literal allocates a new object, an array literal or a spread a new array.\<close>

definition newObject :: "ElementFingerprint \<Rightarrow> Heap \<Rightarrow> ref \<times> Heap" where
  "newObject fp h = (length (objects h), h\<lparr>objects := objects h @ [fp]\<rparr>)"

definition newArray :: "HealingEvent list \<Rightarrow> Heap \<Rightarrow> ref \<times> Heap" where
  "newArray events h = (length (arrays h), h\<lparr>arrays := arrays h @ [events]\<rparr>)"

text \<open>
  \<^verbatim>\<open>new LocatorStore()\<close>: the field initialisers build an empty map and an empty array.
  The singleton \<^verbatim>\<open>locatorStore\<close> is the store built in the empty heap.
\<close>

definition newStore :: "Heap \<Rightarrow> LocatorStore \<times> Heap" where
  "newStore h =
     (let (events, h1) = newArray [] h
      in (\<lparr>fingerprints = [], healingEvents = events\<rparr>, h1))"

definition initialWorld :: "Heap \<times> LocatorStore" where
  "initialWorld =
     (let (s, h) = newStore \<lparr>objects = [], arrays = []\<rparr> in (h, s))"

definition saveFingerprint :: "ref \<Rightarrow> Heap \<Rightarrow> LocatorStore \<Rightarrow> LocatorStore" where
  "saveFingerprint fingerprint h s =
     s\<lparr>fingerprints :=
         AList.update (fp_name (objects h ! fingerprint)) fingerprint (fingerprints s)\<rparr>"

definition getFingerprint :: "string \<Rightarrow> LocatorStore \<Rightarrow> ref option" where
  "getFingerprint name s = map_of (fingerprints s) name"

definition hasFingerprint :: "string \<Rightarrow> LocatorStore \<Rightarrow> bool" where
  "hasFingerprint name s = (map_of (fingerprints s) name \<noteq> None)"

text \<open>
  \<^verbatim>\<open>this.healingEvents.push(event)\<close> and \<^verbatim>\<open>fingerprint.healCount++\<close> write to the
  array and to the object in the heap; every holder of the references sees the change.
\<close>

definition recordHealingEvent :: "HealingEvent \<Rightarrow> Heap \<times> LocatorStore \<Rightarrow> Heap \<times> LocatorStore" where
  "recordHealingEvent event w =
     (let s = snd w;
          h = (fst w)\<lparr>arrays :=
                 (arrays (fst w))[healingEvents s :=
                    arrays (fst w) ! healingEvents s @ [event]]\<rparr>
      in case map_of (fingerprints s) (ev_elementName event) of
           None \<Rightarrow> (h, s)
         | Some fingerprint \<Rightarrow>
             (h\<lparr>objects :=
                 (objects h)[fingerprint :=
                    (objects h ! fingerprint)
                      \<lparr>fp_healCount := fp_healCount (objects h ! fingerprint) + 1\<rparr>]\<rparr>,
              s\<lparr>fingerprints :=
                   AList.update (ev_elementName event) fingerprint (fingerprints s)\<rparr>))"

text \<open>\<^verbatim>\<open>[...this.healingEvents]\<close> is a new array with the same events.\<close>

definition getHealingEvents :: "LocatorStore \<Rightarrow> Heap \<Rightarrow> ref \<times> Heap" where
  "getHealingEvents s h = newArray (arrays h ! healingEvents s) h"

text \<open>
  \<^verbatim>\<open>Array.from(this.fingerprints.values())\<close>: the references in the order of the map. The
  array itself is read once by its receiver and is held by value.
\<close>

definition getAllFingerprints :: "LocatorStore \<Rightarrow> ref list" where
  "getAllFingerprints s = map snd (fingerprints s)"

definition clearHealingEvents :: "LocatorStore \<Rightarrow> Heap \<Rightarrow> LocatorStore \<times> Heap" where
  "clearHealingEvents s h =
     (let (events, h1) = newArray [] h in (s\<lparr>healingEvents := events\<rparr>, h1))"

definition export :: "LocatorStore \<Rightarrow> Heap \<Rightarrow> (ref list \<times> ref) \<times> Heap" where
  "export s h =
     (let (events, h1) = getHealingEvents s h in ((getAllFingerprints s, events), h1))"

text \<open>
  \<^verbatim>\<open>import(data)\<close> sets every fingerprint under its own name and keeps the array
  \<^verbatim>\<open>data.healingEvents\<close> itself.
\<close>

definition import :: "ref list \<times> ref \<Rightarrow> Heap \<Rightarrow> LocatorStore \<Rightarrow> LocatorStore" where
  "import data h s =
     \<lparr>fingerprints =
        foldl (\<lambda>m fp. AList.update (fp_name (objects h ! fp)) fp m) (fingerprints s) (fst data),
      healingEvents = snd data\<rparr>"

text \<open>
  The states the singleton store can be in: those reached from the initial one by the
  operations of the class, by allocations, and by writes of other holders to arrays of
  events. No code of the repository writes the name of a fingerprint object after it is
  built.
\<close>

inductive reachable :: "Heap \<times> LocatorStore \<Rightarrow> bool" where
  initial: "reachable initialWorld"
| allocate: "reachable (h, s) \<Longrightarrow> reachable (snd (newObject fp h), s)"
| allocate_array: "reachable (h, s) \<Longrightarrow> reachable (snd (newArray events h), s)"
| write_array: "reachable (h, s) \<Longrightarrow> a < length (arrays h)
         \<Longrightarrow> reachable (h\<lparr>arrays := (arrays h)[a := events]\<rparr>, s)"
| save: "reachable (h, s) \<Longrightarrow> fingerprint < length (objects h)
         \<Longrightarrow> reachable (h, saveFingerprint fingerprint h s)"
| record_event: "reachable (h, s) \<Longrightarrow> reachable (recordHealingEvent event (h, s))"
| clear_events: "reachable (h, s)
         \<Longrightarrow> reachable (snd (clearHealingEvents s h), fst (clearHealingEvents s h))"
| import_data: "reachable (h, s) \<Longrightarrow> list_all (\<lambda>fp. fp < length (objects h)) (fst data)
         \<Longrightarrow> snd data < length (arrays h) \<Longrightarrow> reachable (h, import data h s)"

text \<open>The fingerprint stored under a name and the events of a store, read through the
  references.\<close>

definition storedFingerprint :: "string \<Rightarrow> Heap \<times> LocatorStore \<Rightarrow> ElementFingerprint option" where
  "storedFingerprint name w =
     (case getFingerprint name (snd w) of
        None \<Rightarrow> None
      | Some fingerprint \<Rightarrow>
          if fingerprint < length (objects (fst w)) then Some (objects (fst w) ! fingerprint)
          else None)"

definition storedEvents :: "Heap \<times> LocatorStore \<Rightarrow> HealingEvent list" where
  "storedEvents w = arrays (fst w) ! healingEvents (snd w)"

subsection \<open>Healing orchestrator (index.ts)\<close>

record TestContext =
  testFile :: string
  testName :: string

text \<open>
  The constructor of \<^verbatim>\<open>SelfHealingEngine\<close> fills the defaults and hands
  \<^verbatim>\<open>confidenceThreshold\<close> to the matcher, so engine and matcher share one threshold.
\<close>

definition defaultConfig :: SelfHealingConfig where
  "defaultConfig =
     \<lparr>cfg_enabled = True, cfg_confidenceThreshold = roundDouble 0.6, cfg_maxAlternatives = 5,
      cfg_reportPath = ''cypress/reports/healing-report.json'',
      cfg_autoUpdateLocators = False\<rparr>"

definition noFingerprintMessage :: "string \<Rightarrow> string \<Rightarrow> string" where
  "noFingerprintMessage elementName primaryLocator =
     ''Element '' @ [dquote] @ elementName @ [dquote]
     @ '' not found and no fingerprint available for self-healing. ''
     @ ''Original locator: '' @ primaryLocator"

text \<open>
  \<^verbatim>\<open>healAndFind\<close>. The two \<^verbatim>\<open>new Date()\<close> are \<open>clock 0\<close> and \<open>clock 1\<close>. The
  local \<^verbatim>\<open>fingerprint\<close> is the reference the store returned; the spread
  \<^verbatim>\<open>{...fingerprint, healCount: fingerprint.healCount + 1}\<close> reads the object after
  \<^verbatim>\<open>recordHealingEvent\<close> has run. \<^verbatim>\<open>Cypress.log\<close> and the \<^verbatim>\<open>logHealingEvent\<close> task
  only print.
\<close>

definition healAndFind ::
    "SelfHealingConfig \<Rightarrow> Document \<Rightarrow> (nat \<Rightarrow> Date) \<Rightarrow> string \<Rightarrow> string \<Rightarrow> TestContext
      \<Rightarrow> Heap \<times> LocatorStore \<Rightarrow> (error + HTMLElement) \<times> (Heap \<times> LocatorStore) \<times> effect list" where
  "healAndFind config document clock primaryLocator elementName context w =
     (case getFingerprint elementName (snd w) of
        None \<Rightarrow> (Inl (NoFingerprintAvailable (noFingerprintMessage elementName primaryLocator)),
                 w, [])
      | Some fingerprint \<Rightarrow>
          (case ElementMatcher_findElement (cfg_confidenceThreshold config) document
                  (objects (fst w) ! fingerprint) of
             (Inl e, effects) \<Rightarrow> (Inl e, w, effects)
           | (Inr result, effects) \<Rightarrow>
               (case m_element result of
                  None \<Rightarrow>
                    (Inl (LowConfidenceHeal elementName (m_confidence result)
                            (cfg_confidenceThreshold config)), w, effects)
                | Some element \<Rightarrow>
                    if m_confidence result < cfg_confidenceThreshold config
                    then (Inl (LowConfidenceHeal elementName (m_confidence result)
                                 (cfg_confidenceThreshold config)), w, effects)
                    else
                      (let healingEvent =
                             \<lparr>ev_timestamp = clock 0,
                              ev_elementName = elementName,
                              ev_originalLocator = primaryLocator,
                              ev_healedLocator =
                                (case m_locator result of
                                   None \<Rightarrow> ''similarity-based''
                                 | Some l \<Rightarrow>
                                     if l_value l \<noteq> [] then l_value l
                                     else ''similarity-based''),
                              ev_strategy = m_matchedBy result,
                              ev_confidence = m_confidence result,
                              ev_testFile = testFile context,
                              ev_testName = testName context\<rparr>;
                           w1 = recordHealingEvent healingEvent w;
                           (updatedFingerprint, h2) =
                             newObject
                               ((objects (fst w1) ! fingerprint)
                                  \<lparr>fp_healCount :=
                                     fp_healCount (objects (fst w1) ! fingerprint) + 1,
                                   fp_lastSeen := Some (clock 1)\<rparr>)
                               (fst w1)
                       in (Inr element,
                           (h2, saveFingerprint updatedFingerprint h2 (snd w1)),
                           effects)))))"

text \<open>
  \<^verbatim>\<open>SelfHealingEngine.findElement\<close>, the body of the \<^verbatim>\<open>heal\<close> command. \<open>doc\<close> is the
  document that \<^verbatim>\<open>cy.document()\<close> yields, \<open>document\<close> the global one that the matcher
  reads. The query of the primary locator is outside any \<^verbatim>\<open>try\<close> block.
\<close>

definition SelfHealingEngine_findElement ::
    "SelfHealingConfig \<Rightarrow> Document \<Rightarrow> Document \<Rightarrow> (nat \<Rightarrow> Date) \<Rightarrow> string \<Rightarrow> string
      \<Rightarrow> TestContext \<Rightarrow> Heap \<times> LocatorStore
      \<Rightarrow> (error + HTMLElement) \<times> (Heap \<times> LocatorStore) \<times> effect list" where
  "SelfHealingEngine_findElement config doc document clock primaryLocator elementName context w =
     (case doc primaryLocator of
        None \<Rightarrow> (Inl (SelectorSyntaxError primaryLocator), w, [PrimaryQuery primaryLocator])
      | Some primaryResult \<Rightarrow>
          if length primaryResult = 1
          then (let element = hd primaryResult;
                    (fingerprint, h1) =
                      newObject (captureElementFingerprint element elementName primaryLocator
                                   (clock 0)) (fst w)
                in (Inr element, (h1, saveFingerprint fingerprint h1 (snd w)),
                    [PrimaryQuery primaryLocator]))
          else if \<not> cfg_enabled config
          then (Inl (NotFoundNoHealing (''Element not found: '' @ primaryLocator)), w,
                [PrimaryQuery primaryLocator])
          else (let (r, w', effects) =
                      healAndFind config document clock primaryLocator elementName context w
                in (r, w', PrimaryQuery primaryLocator # effects)))"

subsection \<open>Example pages\<close>

text \<open>
  A login form as the repository's demo application has it, the same page after a
  redesign, and a bare panel. In the examples the document of \<^verbatim>\<open>cy.document()\<close> and
  the global document are the same page, as the repository's tests take them to be.
\<close>

definition loginForm :: ParentElement where
  "loginForm = \<lparr>pe_tagName = ''FORM'', pe_className = ''login-form card'', pe_id = ''login''\<rparr>"

definition usernameInput :: HTMLElement where
  "usernameInput =
     \<lparr>el_tagName = ''INPUT'', el_textContent = Some [], el_innerText = Some [],
      el_className = ''field'', el_id = ''username'',
      el_attributes = [(''id'', ''username''), (''class'', ''field''),
                       (''data-testid'', ''username-input''),
                       (''placeholder'', ''Enter username''), (''name'', ''username''),
                       (''type'', ''text'')],
      el_value = Some [],
      el_rect = \<lparr>p_x = 40, p_y = 120, p_width = 240, p_height = 32\<rparr>,
      el_parentElement = Some loginForm\<rparr>"

definition passwordInput :: HTMLElement where
  "passwordInput =
     \<lparr>el_tagName = ''INPUT'', el_textContent = Some [], el_innerText = Some [],
      el_className = ''field'', el_id = ''password'',
      el_attributes = [(''id'', ''password''), (''class'', ''field''),
                       (''data-testid'', ''password-input''),
                       (''placeholder'', ''Enter password''), (''name'', ''password''),
                       (''type'', ''password'')],
      el_value = Some [],
      el_rect = \<lparr>p_x = 40, p_y = 170, p_width = 240, p_height = 32\<rparr>,
      el_parentElement = Some loginForm\<rparr>"

text \<open>A button whose class attribute separates two tokens by a tab, with an empty test id.\<close>

definition tabbedButton :: HTMLElement where
  "tabbedButton =
     \<lparr>el_tagName = ''BUTTON'', el_textContent = Some ''Go'', el_innerText = Some ''Go'',
      el_className = [CHR ''b'', CHR ''t'', CHR ''n'', CHR 0x09, CHR ''x''], el_id = [],
      el_attributes = [(''class'', [CHR ''b'', CHR ''t'', CHR ''n'', CHR 0x09, CHR ''x'']),
                       (''data-testid'', [])],
      el_value = None,
      el_rect = \<lparr>p_x = 0, p_y = 0, p_width = 80, p_height = 24\<rparr>,
      el_parentElement = None\<rparr>"

definition pageBody :: ParentElement where
  "pageBody = \<lparr>pe_tagName = ''BODY'', pe_className = [], pe_id = []\<rparr>"

text \<open>A panel with no text and no attributes, and two panels of other sizes.\<close>

definition panel :: HTMLElement where
  "panel =
     \<lparr>el_tagName = ''DIV'', el_textContent = Some [], el_innerText = Some [],
      el_className = [], el_id = [], el_attributes = [], el_value = None,
      el_rect = \<lparr>p_x = 0, p_y = 0, p_width = 300, p_height = 200\<rparr>,
      el_parentElement = Some pageBody\<rparr>"

definition widePanel :: HTMLElement where
  "widePanel = panel\<lparr>el_rect := \<lparr>p_x = 0, p_y = 0, p_width = 400, p_height = 200\<rparr>\<rparr>"

definition tallPanel :: HTMLElement where
  "tallPanel = panel\<lparr>el_rect := \<lparr>p_x = 0, p_y = 0, p_width = 300, p_height = 300\<rparr>\<rparr>"

definition demoDocument :: Document where
  "demoDocument selector =
     (if selector = ''#username'' \<or> selector = attrSelector ''data-testid'' ''username-input''
         \<or> selector = attrSelector ''name'' ''username''
         \<or> selector = attrSelector ''placeholder'' ''Enter username''
         \<or> selector = ''#login > input'' @ attrSelector ''type'' ''text''
      then Some [usernameInput]
      else if selector = ''#password'' then Some [passwordInput]
      else if selector = ''.field'' \<or> selector = ''input''
      then Some [usernameInput, passwordInput]
      else if CHR '':'' \<in> set selector then None
      else Some [])"

definition redesignedDocument :: Document where
  "redesignedDocument selector =
     (if selector = ''div'' then Some [widePanel, tallPanel]
      else if CHR '':'' \<in> set selector then None
      else Some [])"

definition demoClock :: "nat \<Rightarrow> Date" where
  "demoClock k = 100 + k"

definition demoContext :: TestContext where
  "demoContext = \<lparr>testFile = ''cypress/e2e/self-healing.cy.ts'', testName = ''login''\<rparr>"

definition tabbedFingerprint :: ElementFingerprint where
  "tabbedFingerprint = captureElementFingerprint tabbedButton ''goButton'' ''#go'' (demoClock 0)"

definition usernameFingerprint :: ElementFingerprint where
  "usernameFingerprint =
     captureElementFingerprint usernameInput ''usernameInput'' ''#username'' (demoClock 0)"

definition panelFingerprint :: ElementFingerprint where
  "panelFingerprint = captureElementFingerprint panel ''panel'' ''#panel'' (demoClock 0)"

text \<open>
  The store after \<^verbatim>\<open>heal('#username', 'usernameInput')\<close> on the demo page, then after
  \<^verbatim>\<open>heal('#nonexistent', 'usernameInput')\<close>, then after \<^verbatim>\<open>heal('#username',
  'usernameInput')\<close> again.
\<close>

definition registeredWorld :: "Heap \<times> LocatorStore" where
  "registeredWorld =
     fst (snd (SelfHealingEngine_findElement defaultConfig demoDocument demoDocument demoClock
                 ''#username'' ''usernameInput'' demoContext initialWorld))"

definition healedWorld :: "Heap \<times> LocatorStore" where
  "healedWorld =
     fst (snd (SelfHealingEngine_findElement defaultConfig demoDocument demoDocument demoClock
                 ''#nonexistent'' ''usernameInput'' demoContext registeredWorld))"

definition resolvedAgainWorld :: "Heap \<times> LocatorStore" where
  "resolvedAgainWorld =
     fst (snd (SelfHealingEngine_findElement defaultConfig demoDocument demoDocument demoClock
                 ''#username'' ''usernameInput'' demoContext healedWorld))"

definition healedEvent :: HealingEvent where
  "healedEvent =
     \<lparr>ev_timestamp = 100, ev_elementName = ''usernameInput'',
      ev_originalLocator = ''#nonexistent'',
      ev_healedLocator = attrSelector ''data-testid'' ''username-input'',
      ev_strategy = ByLocator T_data_testid, ev_confidence = roundDouble 0.95,
      ev_testFile = ''cypress/e2e/self-healing.cy.ts'', ev_testName = ''login''\<rparr>"

subsection \<open>Auxiliary definitions for the proofs\<close>

text \<open>The locators of \<^verbatim>\<open>generateAlternativeLocators\<close> before the sort, block by block.\<close>

definition unsortedLocators :: "HTMLElement \<Rightarrow> ElementAttributes \<Rightarrow> LocatorStrategy list" where
  "unsortedLocators element attributes =
     (if truthy (dataAttribute attributes ''data-testid'')
      then [\<lparr>l_type = T_data_testid,
             l_value = attrSelector ''data-testid'' (orEmpty (dataAttribute attributes ''data-testid'')),
             l_priority = 1, l_confidence = roundDouble 0.95\<rparr>] else [])
     @ (if truthy (dataAttribute attributes ''data-cy'')
      then [\<lparr>l_type = T_data_cy,
             l_value = attrSelector ''data-cy'' (orEmpty (dataAttribute attributes ''data-cy'')),
             l_priority = 2, l_confidence = roundDouble 0.95\<rparr>] else [])
     @ (if truthy (a_id attributes)
      then [\<lparr>l_type = T_id, l_value = ''#'' @ orEmpty (a_id attributes),
             l_priority = 3, l_confidence = roundDouble 0.9\<rparr>] else [])
     @ (if truthy (a_ariaLabel attributes)
      then [\<lparr>l_type = T_aria_label,
             l_value = attrSelector ''aria-label'' (orEmpty (a_ariaLabel attributes)),
             l_priority = 4, l_confidence = roundDouble 0.85\<rparr>] else [])
     @ (if truthy (a_name attributes)
      then [\<lparr>l_type = T_name, l_value = attrSelector ''name'' (orEmpty (a_name attributes)),
             l_priority = 5, l_confidence = roundDouble 0.8\<rparr>] else [])
     @ (if truthy (a_placeholder attributes)
      then [\<lparr>l_type = T_placeholder,
             l_value = attrSelector ''placeholder'' (orEmpty (a_placeholder attributes)),
             l_priority = 6, l_confidence = roundDouble 0.75\<rparr>] else [])
     @ (if truthy (a_role attributes) \<and> truthy (a_text attributes)
      then [\<lparr>l_type = T_role, l_value = attrSelector ''role'' (orEmpty (a_role attributes)),
             l_priority = 7, l_confidence = roundDouble 0.7\<rparr>] else [])
     @ (if truthy (a_text attributes) \<and> length (orEmpty (a_text attributes)) < 50
      then [\<lparr>l_type = T_text,
             l_value = toLowerCase (el_tagName element) @ '':contains('' @ [dquote]
                       @ escapeQuotes (orEmpty (a_text attributes)) @ [dquote] @ '')'',
             l_priority = 8, l_confidence = roundDouble 0.7\<rparr>] else [])
     @ (if truthy (a_className attributes) \<and> CHR '' '' \<notin> set (orEmpty (a_className attributes))
      then [\<lparr>l_type = T_class, l_value = ''.'' @ orEmpty (a_className attributes),
             l_priority = 9, l_confidence = roundDouble 0.5\<rparr>] else [])
     @ (if truthy (generateContextualCss element attributes)
      then [\<lparr>l_type = T_css, l_value = orEmpty (generateContextualCss element attributes),
             l_priority = 10, l_confidence = roundDouble 0.6\<rparr>] else [])"

text \<open>One block of \<^verbatim>\<open>calculateSimilarityScore\<close>, for any signal.\<close>

definition scoreStep ::
    "HTMLElement \<Rightarrow> ElementAttributes \<Rightarrow> real \<times> real \<Rightarrow> Signal \<Rightarrow> real \<times> real" where
  "scoreStep element target acc s =
     (if applicable s target
      then accumulate (signalScore s element target) (weights s) acc else acc)"

text \<open>
  What every reachable state of the store satisfies: the keys of the map are distinct,
  every reference is allocated, every fingerprint is stored under its own name.
\<close>

definition storeInvariant :: "Heap \<times> LocatorStore \<Rightarrow> bool" where
  "storeInvariant w =
     (distinct (map fst (fingerprints (snd w)))
      \<and> list_all (\<lambda>(key, fingerprint).
            fingerprint < length (objects (fst w))
            \<and> fp_name (objects (fst w) ! fingerprint) = key)
          (fingerprints (snd w))
      \<and> healingEvents (snd w) < length (arrays (fst w)))"

section \<open>Verification\<close>

subsection \<open>Rounding to the nearest double\<close>

lemma roundEven_of_int [simp]: "roundEven (of_int n) = n"
  by (simp add: roundEven_def)

lemma roundEven_mono: "x \<le> y \<Longrightarrow> roundEven x \<le> roundEven y"
proof -
  assume xy: "x \<le> y"
  have fl: "\<lfloor>x\<rfloor> \<le> \<lfloor>y\<rfloor>" using xy by (rule floor_mono)
  have bx: "roundEven x \<le> \<lfloor>x\<rfloor> + 1" and by': "\<lfloor>y\<rfloor> \<le> roundEven y"
    by (auto simp: roundEven_def Let_def)
  show ?thesis
  proof (cases "\<lfloor>x\<rfloor> = \<lfloor>y\<rfloor>")
    case True
    then show ?thesis using xy by (auto simp: roundEven_def Let_def)
  next
    case False
    then have "\<lfloor>x\<rfloor> + 1 \<le> \<lfloor>y\<rfloor>" using fl by simp
    then show ?thesis using bx by' by linarith
  qed
qed

lemma pow2_pos: "0 < (2::real) powr of_int e"
  by simp

lemma pow2_mono: "a \<le> b \<Longrightarrow> (2::real) powr of_int a \<le> 2 powr of_int b"
  by simp

lemma pow2_add: "(2::real) powr of_int (a + b) = 2 powr of_int a * 2 powr of_int b"
  by (simp add: powr_add)

lemma pow2_nat: "0 \<le> e \<Longrightarrow> (2::real) powr of_int e = of_int (2 ^ nat e)"
  by (simp add: powr_realpow[symmetric])

lemma log_bounds:
  assumes "x \<noteq> 0"
  shows "2 powr of_int \<lfloor>log 2 \<bar>x\<bar>\<rfloor> \<le> \<bar>x\<bar>" "\<bar>x\<bar> < 2 powr of_int (\<lfloor>log 2 \<bar>x\<bar>\<rfloor> + 1)"
  using assms floor_log_eq_powr_iff[of "\<bar>x\<bar>" 2 "\<lfloor>log 2 \<bar>x\<bar>\<rfloor>"] by auto

lemma scaled_upper:
  assumes "x \<noteq> 0"
  shows "\<bar>x\<bar> / 2 powr of_int (ulpExponent x) < 2 powr 53"
proof -
  let ?k = "\<lfloor>log 2 \<bar>x\<bar>\<rfloor>"
  have "?k - 52 \<le> ulpExponent x" by (simp add: ulpExponent_def)
  then have "(2::real) powr of_int (?k - 52) \<le> 2 powr of_int (ulpExponent x)"
    by (rule pow2_mono)
  moreover have "(2::real) powr of_int (?k - 52) * 2 powr 53 = 2 powr of_int (?k + 1)"
    by (subst powr_add[symmetric]) (simp add: add.commute)
  then have "\<bar>x\<bar> < 2 powr of_int (?k - 52) * 2 powr 53"
    using log_bounds(2)[OF assms] by simp
  ultimately have "\<bar>x\<bar> < 2 powr of_int (ulpExponent x) * 2 powr 53"
    by (smt (verit) mult_right_mono powr_ge_zero)
  then show ?thesis by (simp add: pos_divide_less_eq mult.commute)
qed

lemma scaled_lower:
  assumes "x \<noteq> 0" "- 1074 < ulpExponent x"
  shows "2 powr 52 \<le> \<bar>x\<bar> / 2 powr of_int (ulpExponent x)"
proof -
  let ?k = "\<lfloor>log 2 \<bar>x\<bar>\<rfloor>"
  have e: "ulpExponent x = ?k - 52" using assms(2) by (simp add: ulpExponent_def max_def split: if_splits)
  have "(2::real) powr of_int (?k - 52) * 2 powr 52 = 2 powr of_int ?k"
    by (subst powr_add[symmetric]) simp
  then have "2 powr of_int (?k - 52) * 2 powr 52 \<le> \<bar>x\<bar>"
    using log_bounds(1)[OF assms(1)] by simp
  then show ?thesis unfolding e by (simp add: pos_le_divide_eq mult.commute)
qed

lemma ulpExponent_mono: "x \<noteq> 0 \<Longrightarrow> \<bar>x\<bar> \<le> \<bar>y\<bar> \<Longrightarrow> ulpExponent x \<le> ulpExponent y"
  unfolding ulpExponent_def
  by (intro max.mono floor_mono diff_right_mono) (auto intro!: floor_mono)


lemma roundDouble_nonneg: "0 \<le> x \<Longrightarrow> 0 \<le> roundDouble x"
proof -
  assume "0 \<le> x"
  then have "0 \<le> x / 2 powr of_int (ulpExponent x)" by simp
  then have "roundEven 0 \<le> roundEven (x / 2 powr of_int (ulpExponent x))"
    by (rule roundEven_mono)
  then have "0 \<le> roundEven (x / 2 powr of_int (ulpExponent x))"
    using roundEven_of_int[of 0] by simp
  then show ?thesis by (simp add: roundDouble_def)
qed

lemma roundDouble_nonpos: "x \<le> 0 \<Longrightarrow> roundDouble x \<le> 0"
proof -
  assume "x \<le> 0"
  then have "x / 2 powr of_int (ulpExponent x) \<le> 0" by (simp add: divide_nonpos_pos)
  then have "roundEven (x / 2 powr of_int (ulpExponent x)) \<le> roundEven 0"
    by (rule roundEven_mono)
  then have "roundEven (x / 2 powr of_int (ulpExponent x)) \<le> 0"
    using roundEven_of_int[of 0] by simp
  then show ?thesis by (simp add: roundDouble_def mult_le_0_iff)
qed

lemma roundEven_upper: "y \<le> of_int n \<Longrightarrow> roundEven y \<le> n"
  using roundEven_mono[of y "of_int n"] by simp

lemma roundEven_lower: "of_int n \<le> y \<Longrightarrow> n \<le> roundEven y"
  using roundEven_mono[of "of_int n" y] by simp

lemma roundDouble_pos_mono:
  assumes "0 < x" "x \<le> y"
  shows "roundDouble x \<le> roundDouble y"
proof -
  let ?ex = "ulpExponent x" and ?ey = "ulpExponent y"
  have x0: "x \<noteq> 0" and y0: "y \<noteq> 0" using assms by auto
  have le: "?ex \<le> ?ey" using assms by (intro ulpExponent_mono) auto
  show ?thesis
  proof (cases "?ex = ?ey")
    case True
    have "x / 2 powr of_int ?ey \<le> y / 2 powr of_int ?ey"
      using assms(2) by (simp add: divide_right_mono)
    then have "roundEven (x / 2 powr of_int ?ey) \<le> roundEven (y / 2 powr of_int ?ey)"
      by (rule roundEven_mono)
    then have "real_of_int (roundEven (x / 2 powr of_int ?ey)) * 2 powr of_int ?ey
               \<le> real_of_int (roundEven (y / 2 powr of_int ?ey)) * 2 powr of_int ?ey"
      by (intro mult_right_mono) auto
    then show ?thesis using True x0 y0 by (simp add: roundDouble_def)
  next
    case False
    then have lt: "?ex + 1 \<le> ?ey" using le by simp
    then have big: "- 1074 < ?ey" by (simp add: ulpExponent_def)
    have "x / 2 powr of_int ?ex < 2 powr 53"
      using scaled_upper[OF x0] assms(1) by simp
    then have "x / 2 powr of_int ?ex \<le> of_int (2 ^ 53)" by simp
    then have "roundEven (x / 2 powr of_int ?ex) \<le> 2 ^ 53" by (rule roundEven_upper)
    then have "real_of_int (roundEven (x / 2 powr of_int ?ex)) \<le> 2 ^ 53"
      by (metis of_int_le_iff of_int_numeral of_int_power)
    then have ux: "roundDouble x \<le> 2 ^ 53 * 2 powr of_int ?ex"
      using x0 by (simp add: roundDouble_def mult_right_mono)
    have "2 powr 52 \<le> y / 2 powr of_int ?ey"
      using scaled_lower[OF y0 big] assms by simp
    then have "of_int (2 ^ 52) \<le> y / 2 powr of_int ?ey" by simp
    then have "2 ^ 52 \<le> roundEven (y / 2 powr of_int ?ey)" by (rule roundEven_lower)
    then have "2 ^ 52 \<le> real_of_int (roundEven (y / 2 powr of_int ?ey))"
      by (metis of_int_le_iff of_int_numeral of_int_power)
    then have ly: "2 ^ 52 * 2 powr of_int ?ey \<le> roundDouble y"
      using y0 by (simp add: roundDouble_def mult_right_mono)
    have "(2::real) powr of_int (?ex + 1) \<le> 2 powr of_int ?ey" using lt by (rule pow2_mono)
    then have "(2::real) * 2 powr of_int ?ex \<le> 2 powr of_int ?ey"
      by (simp add: powr_add)
    then have "(2::real) ^ 52 * (2 * 2 powr of_int ?ex) \<le> 2 ^ 52 * 2 powr of_int ?ey"
      by (intro mult_left_mono) auto
    then have "(2::real) ^ 53 * 2 powr of_int ?ex \<le> 2 ^ 52 * 2 powr of_int ?ey" by simp
    with ux ly show ?thesis by linarith
  qed
qed

lemma roundDouble_neg_mono:
  assumes "y < 0" "x \<le> y"
  shows "roundDouble x \<le> roundDouble y"
proof -
  let ?ex = "ulpExponent x" and ?ey = "ulpExponent y"
  have x0: "x \<noteq> 0" and y0: "y \<noteq> 0" using assms by auto
  have le: "?ey \<le> ?ex" using assms by (intro ulpExponent_mono) auto
  show ?thesis
  proof (cases "?ex = ?ey")
    case True
    have "x / 2 powr of_int ?ey \<le> y / 2 powr of_int ?ey"
      using assms(2) by (simp add: divide_right_mono)
    then have "roundEven (x / 2 powr of_int ?ey) \<le> roundEven (y / 2 powr of_int ?ey)"
      by (rule roundEven_mono)
    then have "real_of_int (roundEven (x / 2 powr of_int ?ey)) * 2 powr of_int ?ey
               \<le> real_of_int (roundEven (y / 2 powr of_int ?ey)) * 2 powr of_int ?ey"
      by (intro mult_right_mono) auto
    then show ?thesis using True x0 y0 by (simp add: roundDouble_def)
  next
    case False
    then have lt: "?ey + 1 \<le> ?ex" using le by simp
    then have big: "- 1074 < ?ex" by (simp add: ulpExponent_def)
    have "\<bar>y\<bar> / 2 powr of_int ?ey < 2 powr 53"
      using scaled_upper[OF y0] by simp
    then have "of_int (- (2 ^ 53)) \<le> y / 2 powr of_int ?ey"
      using assms(1) by (simp add: abs_if field_simps split: if_splits)
    then have "- (2 ^ 53) \<le> roundEven (y / 2 powr of_int ?ey)" by (rule roundEven_lower)
    then have "- (2 ^ 53) \<le> real_of_int (roundEven (y / 2 powr of_int ?ey))"
      by (metis of_int_le_iff of_int_minus of_int_numeral of_int_power)
    then have "- (2 ^ 53) * 2 powr of_int ?ey
               \<le> real_of_int (roundEven (y / 2 powr of_int ?ey)) * 2 powr of_int ?ey"
      by (intro mult_right_mono) auto
    then have ly: "- (2 ^ 53 * 2 powr of_int ?ey) \<le> roundDouble y"
      using y0 by (simp add: roundDouble_def)
    have "2 powr 52 \<le> \<bar>x\<bar> / 2 powr of_int ?ex"
      using scaled_lower[OF x0 big] by simp
    then have "x / 2 powr of_int ?ex \<le> of_int (- (2 ^ 52))"
      using assms by (simp add: abs_if field_simps split: if_splits)
    then have "roundEven (x / 2 powr of_int ?ex) \<le> - (2 ^ 52)" by (rule roundEven_upper)
    then have "real_of_int (roundEven (x / 2 powr of_int ?ex)) \<le> - (2 ^ 52)"
      by (metis of_int_le_iff of_int_minus of_int_numeral of_int_power)
    then have "real_of_int (roundEven (x / 2 powr of_int ?ex)) * 2 powr of_int ?ex
               \<le> - (2 ^ 52) * 2 powr of_int ?ex"
      by (intro mult_right_mono) auto
    then have ux: "roundDouble x \<le> - (2 ^ 52 * 2 powr of_int ?ex)"
      using x0 by (simp add: roundDouble_def)
    have "(2::real) powr of_int (?ey + 1) \<le> 2 powr of_int ?ex" using lt by (rule pow2_mono)
    then have "(2::real) * 2 powr of_int ?ey \<le> 2 powr of_int ?ex"
      by (simp add: powr_add)
    then have "(2::real) ^ 52 * (2 * 2 powr of_int ?ey) \<le> 2 ^ 52 * 2 powr of_int ?ex"
      by (intro mult_left_mono) auto
    then have "(2::real) ^ 53 * 2 powr of_int ?ey \<le> 2 ^ 52 * 2 powr of_int ?ex" by simp
    with ux ly show ?thesis by linarith
  qed
qed

lemma roundDouble_mono: "x \<le> y \<Longrightarrow> roundDouble x \<le> roundDouble y"
proof -
  assume xy: "x \<le> y"
  consider "0 < x" | "y < 0" | "x \<le> 0" "0 \<le> y" by linarith
  then show ?thesis
  proof cases
    case 1
    then show ?thesis using xy by (rule roundDouble_pos_mono)
  next
    case 2
    then show ?thesis using xy by (rule roundDouble_neg_mono)
  next
    case 3
    then show ?thesis using roundDouble_nonpos[of x] roundDouble_nonneg[of y] by linarith
  qed
qed

lemma scale_cancel: "0 < b \<Longrightarrow> a = b * c \<Longrightarrow> m * a / b = m * (c::real)"
  by simp

lemma roundDouble_exact:
  assumes "\<bar>m\<bar> < 2 ^ 53" "- 1074 \<le> k"
  shows "roundDouble (of_int m * 2 powr of_int k) = of_int m * 2 powr of_int k"
proof (cases "m = 0")
  case True
  then show ?thesis by (simp add: roundDouble_def)
next
  case False
  define x :: real where "x = of_int m * 2 powr of_int k"
  define e where "e = ulpExponent x"
  have x0: "x \<noteq> 0" using False by (simp add: x_def)
  have "\<bar>x\<bar> = of_int \<bar>m\<bar> * 2 powr of_int k" by (simp add: x_def abs_mult)
  also have "\<dots> < 2 ^ 53 * 2 powr of_int k"
  proof -
    have "real_of_int \<bar>m\<bar> < 2 ^ 53" using assms(1)
      by (metis of_int_less_iff of_int_numeral of_int_power)
    then show ?thesis by (intro mult_strict_right_mono) auto
  qed
  also have "\<dots> = 2 powr of_int (k + 53)"
    by (simp add: powr_add powr_realpow[symmetric] mult.commute)
  finally have "\<bar>x\<bar> < 2 powr of_int (k + 53)" .
  then have "log 2 \<bar>x\<bar> < of_int (k + 53)"
    using x0 by (subst log_less_iff) auto
  then have "\<lfloor>log 2 \<bar>x\<bar>\<rfloor> < k + 53" by (simp add: floor_less_iff)
  then have ek: "e \<le> k" using assms(2) by (simp add: ulpExponent_def e_def)
  define d where "d = nat (k - e)"
  have k: "k = e + int d" using ek by (simp add: d_def)
  define u :: real where "u = 2 powr of_int e"
  have u: "0 < u" by (simp add: u_def)
  have pk: "(2::real) powr of_int k = u * 2 ^ d"
    unfolding u_def by (subst k) (simp add: powr_add powr_realpow)
  have xu: "x = of_int (m * 2 ^ d) * u" by (simp add: x_def pk)
  then have scaled: "x / u = of_int (m * 2 ^ d)" using u by simp
  have "roundDouble x = of_int (roundEven (x / u)) * u"
    using x0 unfolding roundDouble_def u_def e_def by (simp only: if_False)
  also have "\<dots> = of_int (m * 2 ^ d) * u"
    unfolding scaled by (simp only: roundEven_of_int)
  also have "\<dots> = x" by (simp only: xu)
  finally show ?thesis unfolding x_def .
qed

lemma roundDouble_zero [simp]: "roundDouble 0 = 0"
  by (simp add: roundDouble_def)

lemma roundDouble_one [simp]: "roundDouble 1 = 1"
  using roundDouble_exact[of 1 0] by simp

lemma roundDouble_half: "roundDouble (1 / 2) = 1 / 2"
  using roundDouble_exact[of 1 "- 1"] by (simp add: powr_minus)

lemma roundDouble_nat: "n < 2 ^ 53 \<Longrightarrow> roundDouble (real n) = real n"
  using roundDouble_exact[of "int n" 0] by simp

lemma roundDouble_unit_interval:
  "0 \<le> x \<Longrightarrow> x \<le> 1 \<Longrightarrow> 0 \<le> roundDouble x \<and> roundDouble x \<le> 1"
  using roundDouble_mono[of x 1] roundDouble_nonneg[of x] by simp

lemma roundDouble_normal:
  assumes "2 powr of_int k \<le> \<bar>x\<bar>" "\<bar>x\<bar> < 2 powr of_int (k + 1)" "- 1022 \<le> k"
  shows "roundDouble x = of_int (roundEven (x / 2 powr of_int (k - 52))) * 2 powr of_int (k - 52)"
proof -
  have pos: "0 < \<bar>x\<bar>" using assms(1) by (smt (verit) powr_gt_zero)
  then have x0: "x \<noteq> 0" by auto
  have "\<lfloor>log 2 \<bar>x\<bar>\<rfloor> = k"
    using assms(1,2) pos by (subst floor_log_eq_powr_iff) auto
  then have "ulpExponent x = k - 52" using assms(3) by (simp add: ulpExponent_def)
  then show ?thesis using x0 by (simp add: roundDouble_def)
qed

lemma double_0_1: "roundDouble 0.1 = 3602879701896397 / 36028797018963968"
proof -
  have "roundDouble (1 / 10) =
          of_int (roundEven ((1 / 10) / 2 powr of_int (- 4 - 52))) * 2 powr of_int (- 4 - 52)"
    by (rule roundDouble_normal) (simp_all add: powr_minus)
  moreover have "roundEven ((1 / 10) / 2 powr of_int (- 4 - 52)) = 7205759403792794"
    by (simp add: powr_minus roundEven_def Let_def)
  ultimately show ?thesis by (simp add: powr_minus)
qed

lemma double_2_3: "roundDouble (2 / 3) = 6004799503160661 / 9007199254740992"
proof -
  have "roundDouble (2 / 3) =
          of_int (roundEven ((2 / 3) / 2 powr of_int (- 1 - 52))) * 2 powr of_int (- 1 - 52)"
    by (rule roundDouble_normal) (simp_all add: powr_minus)
  moreover have "roundEven ((2 / 3) / 2 powr of_int (- 1 - 52)) = 6004799503160661"
    by (simp add: powr_minus roundEven_def Let_def)
  ultimately show ?thesis by (simp add: powr_minus)
qed

subsection \<open>The matrix computes the Levenshtein distance; string similarity\<close>

lemma lev_zero_right: "lev a b i 0 = i"
  by (cases i) auto

lemma lev_sym: "lev a b i j = lev b a j i"
  by (induction a b i j rule: lev.induct) (auto simp: lev_zero_right min.commute min.left_commute)

lemma lev_le_max: "lev a b i j \<le> max i j"
  by (induction a b i j rule: lev.induct) auto

lemma length_fillRow: "length P = Suc (length ds) \<Longrightarrow> length (fillRow c ds P l) = length ds"
  by (induction c ds P l rule: fillRow.induct) (auto simp: Let_def)

lemma fillRow_lev:
  assumes "length P = Suc (length ds)" "ds = drop j str1"
    "\<forall>k < length P. P ! k = lev str2 str1 i (j + k)"
    "left = lev str2 str1 (Suc i) j" "c = str2 ! i"
  shows "\<forall>k < length ds. fillRow c ds P left ! k = lev str2 str1 (Suc i) (Suc (j + k))"
  using assms
proof (induction c ds P left arbitrary: j rule: fillRow.induct)
  case (1 c d ds diag up prev left)
  have d: "d = str1 ! j" using 1(3)
    by (metis Cons_nth_drop_Suc drop_all leI list.inject list.simps(3))
  have ds: "ds = drop (Suc j) str1" using 1(3)
    by (metis drop_Suc list.sel(3) tl_drop)
  let ?v = "if c = d then diag else min (diag + 1) (min (left + 1) (up + 1))"
  have diag: "diag = lev str2 str1 i j" using 1(4) by force
  have up: "up = lev str2 str1 i (Suc j)" using 1(4) by force
  have v: "?v = lev str2 str1 (Suc i) (Suc j)"
    using diag up 1(5) 1(6) d by (auto simp: min.commute min.left_commute)
  have prev: "\<forall>k<length (up # prev). (up # prev) ! k = lev str2 str1 i (Suc j + k)"
    using 1(4) by (metis add_Suc_shift length_Cons not_less_eq nth_Cons_Suc)
  have IH: "\<forall>k<length ds. fillRow c ds (up # prev) ?v ! k = lev str2 str1 (Suc i) (Suc (Suc j + k))"
    using 1(2) by (intro 1(1)[OF refl _ ds prev v 1(6)]) simp
  show ?case
  proof (intro allI impI)
    fix k assume "k < length (d # ds)"
    then show "fillRow c (d # ds) (diag # up # prev) left ! k = lev str2 str1 (Suc i) (Suc (j + k))"
      using IH v by (cases k) (auto simp: Let_def)
  qed
qed auto

lemma fillMatrix_lev:
  assumes "length prev = Suc (length str1)"
    "\<forall>k < length prev. prev ! k = lev str2 str1 i k"
    "cs = drop i str2" "i \<le> length str2"
  shows "fillMatrix str1 cs prev (Suc i) = map (lev str2 str1 (length str2)) [0..<Suc (length str1)]"
  using assms
proof (induction cs arbitrary: prev i)
  case Nil
  then have "i = length str2" by simp
  with Nil show ?case by (auto intro!: nth_equalityI simp: nth_Cons' simp del: upt_Suc)
next
  case (Cons c cs)
  have c: "c = str2 ! i" using Cons.prems(3)
    by (metis Cons_nth_drop_Suc drop_all leI list.inject list.simps(3))
  have cs: "cs = drop (Suc i) str2" using Cons.prems(3)
    by (metis drop_Suc list.sel(3) tl_drop)
  have lt: "i < length str2" using Cons.prems(3,4)
    by (metis drop_all leI list.simps(3))
  let ?row = "Suc i # fillRow c str1 prev (Suc i)"
  have len: "length ?row = Suc (length str1)"
    using Cons.prems(1) by (simp add: length_fillRow)
  have fr: "\<forall>k < length str1. fillRow c str1 prev (Suc i) ! k = lev str2 str1 (Suc i) (Suc (0 + k))"
    by (rule fillRow_lev) (use Cons.prems c in \<open>auto simp: lev_zero_right\<close>)
  have row: "\<forall>k < length ?row. ?row ! k = lev str2 str1 (Suc i) k"
  proof (intro allI impI)
    fix k assume "k < length ?row"
    then show "?row ! k = lev str2 str1 (Suc i) k"
      using fr len by (cases k) (auto simp: lev_zero_right)
  qed
  show ?case using Cons.IH[OF len row cs] lt by simp
qed

lemma levenshteinDistance_lev:
  "levenshteinDistance str1 str2 = lev str2 str1 (length str2) (length str1)"
proof (cases str2)
  case Nil
  then show ?thesis by (simp add: levenshteinDistance_def last_conv_nth nth_append)
next
  case (Cons c cs)
  have "fillMatrix str1 str2 [0..<Suc (length str1)] (Suc 0)
        = map (lev str2 str1 (length str2)) [0..<Suc (length str1)]"
    by (rule fillMatrix_lev) (auto simp: nth_append simp del: upt_Suc)
  then show ?thesis
    by (simp add: levenshteinDistance_def last_conv_nth)
qed

lemma levenshteinDistance_levenshtein: "levenshteinDistance a b = levenshtein a b"
  by (simp add: levenshteinDistance_lev levenshtein_def lev_sym)

lemma levenshtein_sym: "levenshtein a b = levenshtein b a"
  by (simp add: levenshtein_def lev_sym)

lemma levenshtein_le: "levenshtein a b \<le> max (length a) (length b)"
  by (simp add: levenshtein_def lev_le_max)

lemma stringSimilarity_distinct:
  assumes "a \<noteq> []" "b \<noteq> []" "a \<noteq> b"
  shows "stringSimilarity a b
           = roundDouble (1 - real (levenshtein a b) / real (max (length a) (length b)))"
proof -
  have pos: "0 < max (length a) (length b)" using assms by (simp add: less_max_iff_disj)
  show ?thesis
  proof (cases "length a > length b")
    case True
    then have "stringSimilarity a b
                 = roundDouble ((real (length a) - real (levenshtein a b)) / real (length a))"
      using assms
      by (simp add: stringSimilarity_def Let_def levenshteinDistance_levenshtein fdiv_def)
    then show ?thesis using True assms by (simp add: diff_divide_distrib max_def)
  next
    case False
    then have "stringSimilarity a b
                 = roundDouble ((real (length b) - real (levenshtein b a)) / real (length b))"
      using assms
      by (simp add: stringSimilarity_def Let_def levenshteinDistance_levenshtein fdiv_def)
    then show ?thesis using False assms
      by (simp add: diff_divide_distrib max_def levenshtein_sym)
  qed
qed

lemma stringSimilarity_range: "0 \<le> stringSimilarity a b \<and> stringSimilarity a b \<le> 1"
proof (cases "a = b \<or> a = [] \<or> b = []")
  case True
  then show ?thesis by (auto simp: stringSimilarity_def)
next
  case False
  then have eq: "stringSimilarity a b
                   = roundDouble (1 - real (levenshtein a b) / real (max (length a) (length b)))"
    by (simp add: stringSimilarity_distinct)
  have pos: "0 < real (max (length a) (length b))" using False by (simp add: less_max_iff_disj)
  have "real (levenshtein a b) \<le> real (max (length a) (length b))"
    using levenshtein_le[of a b] by linarith
  then have "real (levenshtein a b) / real (max (length a) (length b)) \<le> 1"
    using pos by (simp add: divide_le_eq_1)
  moreover have "0 \<le> real (levenshtein a b) / real (max (length a) (length b))" by simp
  ultimately show ?thesis
    unfolding eq by (intro roundDouble_unit_interval) linarith+
qed

text \<open>
  Claim C9. \<open>stringSimilarity a a\<close> is 1; the similarity of a non-empty string and the
  empty string is 0, in either order; the similarity of any two strings lies between 0 and
  1; and for two distinct non-empty strings it is 1 minus their Levenshtein distance divided
  by the length of the longer one, as the nearest double.
\<close>

theorem stringSimilarity_properties:
  "stringSimilarity a a = 1
   \<and> (a \<noteq> [] \<longrightarrow> stringSimilarity a [] = 0 \<and> stringSimilarity [] a = 0)
   \<and> 0 \<le> stringSimilarity a b \<and> stringSimilarity a b \<le> 1
   \<and> (a \<noteq> [] \<and> b \<noteq> [] \<and> a \<noteq> b \<longrightarrow>
        stringSimilarity a b
          = roundDouble (1 - real (levenshtein a b) / real (max (length a) (length b))))"
  using stringSimilarity_range[of a b] stringSimilarity_distinct[of a b]
  by (simp add: stringSimilarity_def)

lemma levenshtein_ab_abc: "levenshtein ''ab'' ''abc'' = 1"
  by (simp add: levenshtein_def numeral_3_eq_3 numeral_2_eq_2)

theorem stringSimilarity_properties_witness:
  "stringSimilarity ''ab'' ''ab'' = 1
   \<and> stringSimilarity ''ab'' [] = 0 \<and> stringSimilarity [] ''ab'' = 0
   \<and> 0 \<le> stringSimilarity ''ab'' ''abc'' \<and> stringSimilarity ''ab'' ''abc'' \<le> 1
   \<and> levenshtein ''ab'' ''abc'' = 1
   \<and> stringSimilarity ''ab'' ''abc'' = 6004799503160661 / 9007199254740992"
  using stringSimilarity_properties[of "''ab''" "''abc''"] levenshtein_ab_abc double_2_3
  by simp

end
